theory Spec2Isabelle
  imports Complex_Main "HOL-Library.Multiset"
begin

section \<open>The expense tracker API of backend/server.js\<close>

text \<open>
  The server is an Express application over a Mongoose model. This theory embeds the
  cross-origin callback, the Expense schema, the two expense handlers and the start-up
  sequence of \<^verbatim>\<open>backend/server.js\<close>. What belongs to the JavaScript runtime or to a
  library (truthiness, \<^verbatim>\<open>Number\<close>, the casts and validators of the schema types, the
  query operators) is modelled from its documented behaviour, each in a definition of
  its own, so that the handlers themselves read like the source.
\<close>

subsection \<open>Cross-origin policy (lines 18 to 40)\<close>

definition ALLOWED_ORIGINS :: "string list" where
  "ALLOWED_ORIGINS =
     [''https://mern-endterm.vercel.app'',
      ''https://mern-endterm-czx9.vercel.app'',
      ''https://mern-endterm2.onrender.com'',
      ''http://localhost:3000'']"

text \<open>\<^verbatim>\<open>String.prototype.endsWith\<close>: the last characters of \<open>s\<close> are \<open>t\<close>.\<close>

definition endsWith :: "string \<Rightarrow> string \<Rightarrow> bool" where
  "endsWith s t = (length t \<le> length s \<and> drop (length s - length t) s = t)"

text \<open>
  The callback's two outcomes: \<^verbatim>\<open>callback(null, true)\<close> and
  \<^verbatim>\<open>callback(new Error(msg), false)\<close>.
\<close>

datatype cors_outcome = Allow | Deny string

text \<open>
  The cors middleware hands the callback \<^verbatim>\<open>req.headers.origin\<close>: \<open>None\<close> is
  \<^verbatim>\<open>undefined\<close> (no Origin header), \<open>Some s\<close> the header's value. The guard
  \<^verbatim>\<open>!origin\<close> is true of \<^verbatim>\<open>undefined\<close> and of the empty string.
\<close>

definition origin_callback :: "string option \<Rightarrow> cors_outcome" where
  "origin_callback origin =
     (case origin of
        None \<Rightarrow> Allow
      | Some s \<Rightarrow>
          if s = [] then Allow
          else if s \<in> set ALLOWED_ORIGINS \<or> endsWith s ''.vercel.app''
                  \<or> endsWith s ''.onrender.com''
          then Allow
          else Deny (''Origin '' @ s @ '' is not allowed by the server's CORS policy.''))"

subsection \<open>JavaScript values of a parsed JSON body\<close>

text \<open>
  A number is \<open>NaN\<close>, an infinity or a finite value. A finite value is kept as the exact
  rational its literal denotes: rounding to an IEEE-754 double is not modelled, so
  \<open>0\<close> and \<open>-0\<close> are one value, and a literal too large for a double stays finite.
\<close>

datatype js_number = NaN | PosInfinity | NegInfinity | Finite rat

text \<open>
  The values a property of \<^verbatim>\<open>req.body\<close> is modelled to hold: \<^verbatim>\<open>undefined\<close> (the
  property is absent) and the JSON primitives. Arrays and objects as property values are
  outside this model.
\<close>

datatype js_value = JUndefined | JNull | JBool bool | JNumber js_number | JString string

text \<open>\<^verbatim>\<open>!v\<close> is \<open>\<not> ToBoolean v\<close>.\<close>

fun ToBoolean :: "js_value \<Rightarrow> bool" where
  "ToBoolean JUndefined = False"
| "ToBoolean JNull = False"
| "ToBoolean (JBool b) = b"
| "ToBoolean (JNumber n) = (n \<noteq> NaN \<and> n \<noteq> Finite 0)"
| "ToBoolean (JString s) = (s \<noteq> [])"

text \<open>
  \<^verbatim>\<open>Number(s)\<close> on a string, after the StringNumericLiteral grammar of ECMAScript:
  white space is trimmed, the empty string is \<open>0\<close>, a literal is binary, octal or
  hexadecimal with its prefix, or decimal with an optional sign, fraction and exponent,
  or a signed \<^verbatim>\<open>Infinity\<close>; everything else is \<open>NaN\<close>. Of the white space characters,
  the ASCII ones are modelled.
\<close>

definition StrWhiteSpaceChar :: "char \<Rightarrow> bool" where
  "StrWhiteSpaceChar c = (c \<in> set [CHR 0x09, CHR 0x0A, CHR 0x0B, CHR 0x0C, CHR 0x0D, CHR 0x20])"

definition trim :: "string \<Rightarrow> string" where
  "trim s = rev (dropWhile StrWhiteSpaceChar (rev (dropWhile StrWhiteSpaceChar s)))"

definition digit_value :: "nat \<Rightarrow> char \<Rightarrow> nat option" where
  "digit_value radix c =
     (let n = of_char c :: nat;
          d = (if 48 \<le> n \<and> n \<le> 57 then n - 48
               else if 97 \<le> n \<and> n \<le> 122 then n - 87
               else if 65 \<le> n \<and> n \<le> 90 then n - 55
               else radix)
      in if d < radix then Some d else None)"

fun digits_value :: "nat \<Rightarrow> string \<Rightarrow> nat \<Rightarrow> nat option" where
  "digits_value radix [] acc = Some acc"
| "digits_value radix (c # cs) acc =
     (case digit_value radix c of
        None \<Rightarrow> None
      | Some d \<Rightarrow> digits_value radix cs (radix * acc + d))"

definition Digits :: "nat \<Rightarrow> string \<Rightarrow> nat option" where
  "Digits radix s = (if s = [] then None else digits_value radix s 0)"

definition ExponentPart :: "string \<Rightarrow> int option" where
  "ExponentPart s =
     (case s of
        [] \<Rightarrow> None
      | c # ds \<Rightarrow>
          if c = CHR ''+'' then map_option int (Digits 10 ds)
          else if c = CHR ''-'' then map_option (\<lambda>n. - int n) (Digits 10 ds)
          else map_option int (Digits 10 s))"

definition scale10 :: "rat \<Rightarrow> int \<Rightarrow> rat" where
  "scale10 q e = (if 0 \<le> e then q * 10 ^ nat e else q / 10 ^ nat (- e))"

definition Mantissa :: "string \<Rightarrow> rat option" where
  "Mantissa s =
     (let ip = takeWhile (\<lambda>c. c \<noteq> CHR ''.'') s in
      case dropWhile (\<lambda>c. c \<noteq> CHR ''.'') s of
        [] \<Rightarrow> map_option of_nat (Digits 10 ip)
      | dot # fp \<Rightarrow>
          if ip = [] \<and> fp = [] then None
          else (case (digits_value 10 ip 0, digits_value 10 fp 0) of
                  (Some a, Some b) \<Rightarrow> Some (of_nat a + of_nat b / 10 ^ length fp)
                | _ \<Rightarrow> None))"

definition StrUnsignedDecimalLiteral :: "string \<Rightarrow> js_number" where
  "StrUnsignedDecimalLiteral s =
     (if s = ''Infinity'' then PosInfinity
      else
        let no_e = (\<lambda>c. c \<noteq> CHR ''e'' \<and> c \<noteq> CHR ''E'');
            ex = (case dropWhile no_e s of [] \<Rightarrow> Some 0 | e # ds \<Rightarrow> ExponentPart ds)
        in case (Mantissa (takeWhile no_e s), ex) of
             (Some q, Some e) \<Rightarrow> Finite (scale10 q e)
           | _ \<Rightarrow> NaN)"

fun negate :: "js_number \<Rightarrow> js_number" where
  "negate NaN = NaN"
| "negate PosInfinity = NegInfinity"
| "negate NegInfinity = PosInfinity"
| "negate (Finite q) = Finite (- q)"

definition StrDecimalLiteral :: "string \<Rightarrow> js_number" where
  "StrDecimalLiteral s =
     (case s of
        [] \<Rightarrow> NaN
      | c # cs \<Rightarrow>
          if c = CHR ''+'' then StrUnsignedDecimalLiteral cs
          else if c = CHR ''-'' then negate (StrUnsignedDecimalLiteral cs)
          else StrUnsignedDecimalLiteral s)"

definition radix_of_prefix :: "string \<Rightarrow> nat option" where
  "radix_of_prefix s =
     (case s of
        z # x # ds \<Rightarrow>
          if z \<noteq> CHR ''0'' then None
          else if x = CHR ''b'' \<or> x = CHR ''B'' then Some 2
          else if x = CHR ''o'' \<or> x = CHR ''O'' then Some 8
          else if x = CHR ''x'' \<or> x = CHR ''X'' then Some 16
          else None
      | _ \<Rightarrow> None)"

definition StringToNumber :: "string \<Rightarrow> js_number" where
  "StringToNumber s =
     (let t = trim s in
      if t = [] then Finite 0
      else case radix_of_prefix t of
             Some radix \<Rightarrow>
               (case Digits radix (drop 2 t) of Some n \<Rightarrow> Finite (of_nat n) | None \<Rightarrow> NaN)
           | None \<Rightarrow> StrDecimalLiteral t)"

text \<open>\<^verbatim>\<open>Number(v)\<close> on the values of the model.\<close>

fun Number :: "js_value \<Rightarrow> js_number" where
  "Number JUndefined = NaN"
| "Number JNull = Finite 0"
| "Number (JBool b) = Finite (if b then 1 else 0)"
| "Number (JNumber n) = n"
| "Number (JString s) = StringToNumber s"

text \<open>
  A parsed JSON object: a finite map from property names to values. Reading a property
  the object does not have gives \<^verbatim>\<open>undefined\<close>.
\<close>

type_synonym js_object = "string \<rightharpoonup> js_value"

definition property :: "js_object \<Rightarrow> string \<Rightarrow> js_value" where
  "property obj k = (case obj k of None \<Rightarrow> JUndefined | Some v \<Rightarrow> v)"

subsection \<open>The Expense schema and model (lines 56 to 67)\<close>

text \<open>
  \<^verbatim>\<open>req.user.id\<close> is set by the auth middleware, a module of its own
  (\<^verbatim>\<open>./middleware/auth\<close>) that runs before the handlers; they receive the id it
  resolved as an argument, a well-formed id.
\<close>

type_synonym ObjectId = string

text \<open>
  A stored expense holds the four paths of the schema; dates are milliseconds since the
  epoch. The generated \<^verbatim>\<open>_id\<close> and version key are left out.
\<close>

record expense =
  user :: ObjectId
  description :: string
  amount :: js_number
  date :: int

text \<open>
  What a request finds outside the program: the clock read by \<^verbatim>\<open>Date.now\<close>, the
  rendering of a number as text (\<^verbatim>\<open>Number.prototype.toString\<close>, used when a String path
  is given a number), and whether the store call of this request fails, with the
  driver's message.
\<close>

record env =
  Date_now :: int
  Number_toString :: "js_number \<Rightarrow> string"
  store_failure :: "string option"

text \<open>
  The errors a model call rejects with: the paths that failed the schema's validation,
  found by \<^verbatim>\<open>save\<close> before anything is written, or the driver's failure.
\<close>

datatype error = ValidationError "string list" | DriverError string

text \<open>
  The casts of the schema types. A String path takes \<^verbatim>\<open>null\<close> and \<^verbatim>\<open>undefined\<close> as
  no value and the \<^verbatim>\<open>toString()\<close> of any other primitive. A Number path refuses
  \<open>NaN\<close>.
\<close>

fun castString :: "(js_number \<Rightarrow> string) \<Rightarrow> js_value \<Rightarrow> string option" where
  "castString toString JUndefined = None"
| "castString toString JNull = None"
| "castString toString (JBool b) = Some (if b then ''true'' else ''false'')"
| "castString toString (JNumber n) = Some (toString n)"
| "castString toString (JString s) = Some s"

definition castNumber :: "js_number \<Rightarrow> js_number option" where
  "castNumber n = (if n = NaN then None else Some n)"

text \<open>
  \<^verbatim>\<open>new Expense({ user, description, amount })\<close>: each path is cast, a failed cast is
  remembered for validation, and the default of \<^verbatim>\<open>date\<close> is applied.
\<close>

record document =
  doc_user :: ObjectId
  doc_description :: "string option"
  doc_amount :: "js_number option"
  doc_date :: int

definition new_Expense :: "env \<Rightarrow> ObjectId \<Rightarrow> js_value \<Rightarrow> js_number \<Rightarrow> document" where
  "new_Expense env uid d n =
     \<lparr>doc_user = uid,
      doc_description = castString (Number_toString env) d,
      doc_amount = castNumber n,
      doc_date = Date_now env\<rparr>"

text \<open>
  Validation: \<^verbatim>\<open>required\<close> on a String path wants a non-empty string, on a Number path
  a number; a path whose cast failed is invalid.
\<close>

definition validate :: "document \<Rightarrow> string list + expense" where
  "validate doc =
     (case (doc_description doc, doc_amount doc) of
        (Some d, Some a) \<Rightarrow>
          if d = [] then Inl [''description'']
          else Inr \<lparr>user = doc_user doc, description = d, amount = a, date = doc_date doc\<rparr>
      | (Some d, None) \<Rightarrow> Inl ((if d = [] then [''description''] else []) @ [''amount''])
      | (None, Some a) \<Rightarrow> Inl [''description'']
      | (None, None) \<Rightarrow> Inl [''description'', ''amount''])"

text \<open>
  \<^verbatim>\<open>doc.save()\<close>: validate, then insert. The collection is the list of its documents
  in insertion order.
\<close>

definition save :: "env \<Rightarrow> expense list \<Rightarrow> document \<Rightarrow> error + expense list \<times> expense" where
  "save env db doc =
     (case validate doc of
        Inl paths \<Rightarrow> Inl (ValidationError paths)
      | Inr e \<Rightarrow>
          (case store_failure env of
             Some m \<Rightarrow> Inl (DriverError m)
           | None \<Rightarrow> Inr (db @ [e], e)))"

text \<open>
  \<^verbatim>\<open>Expense.find({ user: uid }).sort({ date: -1 })\<close>: the documents of that user, the
  latest date first. The store leaves the order of equal dates open; the model keeps
  them in insertion order.
\<close>

definition sort_date_desc :: "expense list \<Rightarrow> expense list" where
  "sort_date_desc xs = sort_key (\<lambda>e. - date e) xs"

definition find_sorted :: "env \<Rightarrow> expense list \<Rightarrow> ObjectId \<Rightarrow> error + expense list" where
  "find_sorted env db uid =
     (case store_failure env of
        Some m \<Rightarrow> Inl (DriverError m)
      | None \<Rightarrow> Inr (sort_date_desc (filter (\<lambda>e. user e = uid) db)))"

subsection \<open>The routes (lines 73 to 111)\<close>

text \<open>
  A response is its status and what was sent: a text, \<^verbatim>\<open>{ message: '...' }\<close> with a
  literal, \<^verbatim>\<open>{ message: error.message }\<close> of a caught error, the listed expenses, or
  the saved one.
\<close>

datatype content =
  Text string
| Message string
| ErrorMessage error
| Expenses "expense list"
| Saved expense

record response =
  status :: nat
  content :: content

text \<open>The health check of line 73; \<^verbatim>\<open>res.send\<close> answers 200.\<close>

definition get_root :: response where
  "get_root = \<lparr>status = 200, content = Text ''Expense Tracker API is running - CORS FIX IS LIVE.''\<rparr>"

definition get_expenses :: "env \<Rightarrow> expense list \<Rightarrow> ObjectId \<Rightarrow> response" where
  "get_expenses env db uid =
     (case find_sorted env db uid of
        Inr expenses \<Rightarrow> \<lparr>status = 200, content = Expenses expenses\<rparr>
      | Inl error \<Rightarrow> \<lparr>status = 500, content = ErrorMessage error\<rparr>)"

definition post_expenses ::
  "env \<Rightarrow> expense list \<Rightarrow> ObjectId \<Rightarrow> js_object \<Rightarrow> expense list \<times> response" where
  "post_expenses env db uid body =
     (let d = property body ''description'';
          a = property body ''amount''
      in if \<not> ToBoolean d \<or> \<not> ToBoolean a
         then (db, \<lparr>status = 400, content = Message ''Description and amount are required.''\<rparr>)
         else
           let newExpense = new_Expense env uid d (Number a)
           in case save env db newExpense of
                Inr (db', savedExpense) \<Rightarrow> (db', \<lparr>status = 201, content = Saved savedExpense\<rparr>)
              | Inl error \<Rightarrow> (db, \<lparr>status = 400, content = ErrorMessage error\<rparr>))"

text \<open>The expenses a listing response carries.\<close>

definition listed :: "response \<Rightarrow> expense list" where
  "listed r = (case content r of Expenses xs \<Rightarrow> xs | _ \<Rightarrow> [])"

subsection \<open>Start-up (lines 46 to 51 and 115 to 117)\<close>

text \<open>
  The module starts the connection and calls \<^verbatim>\<open>app.listen\<close> without waiting for it,
  so the process takes requests while the connection is pending. The event loop then
  runs one callback at a time: the connection promise settles once, resolved or
  rejected, and the rejection handler calls \<^verbatim>\<open>process.exit(1)\<close>; a request is handed
  to its route. An exited process runs nothing. Console output is not recorded.
\<close>

datatype connection = Pending | Connected

datatype 'q event = ConnectResolved | ConnectRejected string | Request 'q

record 'r process =
  connection :: connection
  exit_code :: "nat option"
  responses :: "'r list"

definition started :: "'r process" where
  "started = \<lparr>connection = Pending, exit_code = None, responses = []\<rparr>"

definition on_event :: "('q \<Rightarrow> 'r) \<Rightarrow> 'r process \<Rightarrow> 'q event \<Rightarrow> 'r process" where
  "on_event route p ev =
     (case exit_code p of
        Some c \<Rightarrow> p
      | None \<Rightarrow>
          (case ev of
             ConnectResolved \<Rightarrow>
               if connection p = Pending then p\<lparr>connection := Connected\<rparr> else p
           | ConnectRejected err \<Rightarrow>
               if connection p = Pending then p\<lparr>exit_code := Some 1\<rparr> else p
           | Request q \<Rightarrow> p\<lparr>responses := responses p @ [route q]\<rparr>))"

definition run :: "('q \<Rightarrow> 'r) \<Rightarrow> 'r process \<Rightarrow> 'q event list \<Rightarrow> 'r process" where
  "run route p evs = foldl (on_event route) p evs"

section \<open>Properties\<close>

subsection \<open>Evaluation and the shape of the handlers' results\<close>

lemmas number_defs = StringToNumber_def StrDecimalLiteral_def StrUnsignedDecimalLiteral_def
  Mantissa_def ExponentPart_def Digits_def digit_value_def scale10_def radix_of_prefix_def
  trim_def StrWhiteSpaceChar_def

lemma origin_callback_Some:
  "origin_callback (Some s) =
     (if s = [] \<or> s \<in> set ALLOWED_ORIGINS \<or> endsWith s ''.vercel.app''
         \<or> endsWith s ''.onrender.com''
      then Allow
      else Deny (''Origin '' @ s @ '' is not allowed by the server's CORS policy.''))"
  by (simp add: origin_callback_def)

lemma origin_callback_None: "origin_callback None = Allow"
  by (simp add: origin_callback_def)

lemma post_expenses_rejected:
  "\<not> ToBoolean (property body ''description'') \<or> \<not> ToBoolean (property body ''amount'') \<Longrightarrow>
   post_expenses env db uid body =
     (db, \<lparr>status = 400, content = Message ''Description and amount are required.''\<rparr>)"
  by (auto simp add: post_expenses_def Let_def)

lemma post_expenses_frame:
  "k \<noteq> ''description'' \<Longrightarrow> k \<noteq> ''amount'' \<Longrightarrow>
   post_expenses env db uid (body(k := v)) = post_expenses env db uid body"
  by (simp add: post_expenses_def property_def)

lemma validate_Inr:
  "validate doc = Inr e \<Longrightarrow>
   user e = doc_user doc \<and> date e = doc_date doc \<and> doc_description doc = Some (description e)
   \<and> doc_amount doc = Some (amount e) \<and> description e \<noteq> []"
  by (auto simp add: validate_def split: option.splits if_splits)

lemma save_Inr:
  "save env db doc = Inr (db', e) \<Longrightarrow>
   db' = db @ [e] \<and> validate doc = Inr e \<and> store_failure env = None"
  by (auto simp add: save_def split: sum.splits option.splits)

lemma post_expenses_cases:
  "(\<exists>r. post_expenses env db uid body = (db, r) \<and> status r = 400) \<or>
   (\<exists>e. post_expenses env db uid body = (db @ [e], \<lparr>status = 201, content = Saved e\<rparr>)
        \<and> user e = uid \<and> date e = Date_now env \<and> amount e = Number (property body ''amount'')
        \<and> amount e \<noteq> NaN)"
proof (cases "\<not> ToBoolean (property body ''description'') \<or> \<not> ToBoolean (property body ''amount'')")
  case True
  then show ?thesis by (simp add: post_expenses_rejected)
next
  case False
  let ?doc = "new_Expense env uid (property body ''description'') (Number (property body ''amount''))"
  show ?thesis
  proof (cases "save env db ?doc")
    case (Inl err)
    with False show ?thesis by (simp add: post_expenses_def Let_def)
  next
    case (Inr pr)
    obtain db' e where pr: "pr = (db', e)" by (cases pr)
    from Inr pr have s: "save env db ?doc = Inr (db', e)" by simp
    from save_Inr[OF s] have db': "db' = db @ [e]" and v: "validate ?doc = Inr e" by simp_all
    from validate_Inr[OF v] have "user e = uid" "date e = Date_now env"
      "castNumber (Number (property body ''amount'')) = Some (amount e)"
      by (simp_all add: new_Expense_def)
    moreover from this have "amount e = Number (property body ''amount'')" "amount e \<noteq> NaN"
      by (auto simp add: castNumber_def split: if_splits)
    moreover from False s db' have
      "post_expenses env db uid body = (db @ [e], \<lparr>status = 201, content = Saved e\<rparr>)"
      by (simp add: post_expenses_def Let_def)
    ultimately show ?thesis by blast
  qed
qed

lemma sorted_sort_date_desc: "sorted_wrt (\<lambda>a b. date b \<le> date a) (sort_date_desc xs)"
proof -
  have "sorted (map (\<lambda>e. - date e) (sort_key (\<lambda>e. - date e) xs))"
    by (rule sorted_sort_key)
  then show ?thesis
    by (simp add: sort_date_desc_def sorted_map)
qed

lemma get_expenses_ok:
  "store_failure env = None \<Longrightarrow>
   get_expenses env db uid =
     \<lparr>status = 200, content = Expenses (sort_date_desc (filter (\<lambda>e. user e = uid) db))\<rparr>"
  by (simp add: get_expenses_def find_sorted_def)

lemma get_expenses_failed:
  "store_failure env = Some m \<Longrightarrow>
   get_expenses env db uid = \<lparr>status = 500, content = ErrorMessage (DriverError m)\<rparr>"
  by (simp add: get_expenses_def find_sorted_def)

lemma set_listed: "set (listed (get_expenses env db uid)) \<subseteq> {e \<in> set db. user e = uid}"
  by (cases "store_failure env") (auto simp add: get_expenses_ok get_expenses_failed listed_def sort_date_desc_def)

lemma get_expenses_cong:
  "filter (\<lambda>e. user e = uid) db' = filter (\<lambda>e. user e = uid) db \<Longrightarrow>
   get_expenses env db' uid = get_expenses env db uid"
  by (cases "store_failure env") (simp_all add: get_expenses_def find_sorted_def)

lemma run_append: "run route p (xs @ ys) = run route (run route p xs) ys"
  by (simp add: run_def)

lemma run_Cons: "run route p (ev # evs) = run route (on_event route p ev) evs"
  by (simp add: run_def)

lemma on_event_exited: "exit_code p = Some c \<Longrightarrow> on_event route p ev = p"
  by (simp add: on_event_def)

lemma run_exited: "exit_code p = Some c \<Longrightarrow> run route p evs = p"
  by (induction evs) (simp_all add: run_def on_event_exited)

lemma on_event_rejected:
  "connection p = Pending \<Longrightarrow> exit_code p = None \<Longrightarrow>
   on_event route p (ConnectRejected err) = p\<lparr>exit_code := Some 1\<rparr>"
  by (simp add: on_event_def)

subsection \<open>The claims\<close>

text \<open>
  Claim C1 (per-user isolation). The list GET /expenses returns for a user \<open>A\<close> holds
  only expenses whose owner is \<open>A\<close>, whatever the collection holds; and an expense created
  by another user \<open>B\<close> through POST /expenses never shows in it: the listing of \<open>A\<close>
  after the request of \<open>B\<close> is the listing before it.
\<close>

theorem expense_isolation:
  "(\<forall>e \<in> set (listed (get_expenses env db A)). user e = A) \<and>
   (B \<noteq> A \<longrightarrow>
      get_expenses env (fst (post_expenses envB db B body)) A = get_expenses env db A \<and>
      (\<forall>e \<in> set (listed (get_expenses env (fst (post_expenses envB db B body)) A)). user e \<noteq> B))"
proof -
  have own: "\<forall>e \<in> set (listed (get_expenses env db' A)). user e = A" for db'
    using set_listed[of env db' A] by auto
  have "get_expenses env (fst (post_expenses envB db B body)) A = get_expenses env db A" if "B \<noteq> A"
  proof (rule get_expenses_cong)
    from post_expenses_cases[of envB db B body] that
    show "filter (\<lambda>e. user e = A) (fst (post_expenses envB db B body)) = filter (\<lambda>e. user e = A) db"
      by auto
  qed
  with own show ?thesis by auto
qed

theorem expense_isolation_witness:
  "''bob'' \<noteq> ''alice'' \<and>
   listed (get_expenses \<lparr>Date_now = 50, Number_toString = (\<lambda>n. []), store_failure = None\<rparr>
     [\<lparr>user = ''alice'', description = ''tea'', amount = Finite 2, date = 10\<rparr>,
      \<lparr>user = ''bob'', description = ''rent'', amount = Finite 900, date = 40\<rparr>] ''alice'')
     = [\<lparr>user = ''alice'', description = ''tea'', amount = Finite 2, date = 10\<rparr>] \<and>
   fst (post_expenses \<lparr>Date_now = 50, Number_toString = (\<lambda>n. []), store_failure = None\<rparr>
     [\<lparr>user = ''alice'', description = ''tea'', amount = Finite 2, date = 10\<rparr>,
      \<lparr>user = ''bob'', description = ''rent'', amount = Finite 900, date = 40\<rparr>] ''bob''
     [''description'' \<mapsto> JString ''coffee'', ''amount'' \<mapsto> JNumber (Finite 4)])
     = [\<lparr>user = ''alice'', description = ''tea'', amount = Finite 2, date = 10\<rparr>,
        \<lparr>user = ''bob'', description = ''rent'', amount = Finite 900, date = 40\<rparr>,
        \<lparr>user = ''bob'', description = ''coffee'', amount = Finite 4, date = 50\<rparr>] \<and>
   listed (get_expenses \<lparr>Date_now = 50, Number_toString = (\<lambda>n. []), store_failure = None\<rparr>
     (fst (post_expenses \<lparr>Date_now = 50, Number_toString = (\<lambda>n. []), store_failure = None\<rparr>
       [\<lparr>user = ''alice'', description = ''tea'', amount = Finite 2, date = 10\<rparr>,
        \<lparr>user = ''bob'', description = ''rent'', amount = Finite 900, date = 40\<rparr>] ''bob''
       [''description'' \<mapsto> JString ''coffee'', ''amount'' \<mapsto> JNumber (Finite 4)])) ''alice'')
     = [\<lparr>user = ''alice'', description = ''tea'', amount = Finite 2, date = 10\<rparr>]"
  using expense_isolation[of "\<lparr>Date_now = 50, Number_toString = (\<lambda>n. []), store_failure = None\<rparr>"
     "[\<lparr>user = ''alice'', description = ''tea'', amount = Finite 2, date = 10\<rparr>,
       \<lparr>user = ''bob'', description = ''rent'', amount = Finite 900, date = 40\<rparr>]" "''alice''"
     "''bob''" "\<lparr>Date_now = 50, Number_toString = (\<lambda>n. []), store_failure = None\<rparr>"
     "[''description'' \<mapsto> JString ''coffee'', ''amount'' \<mapsto> JNumber (Finite 4)]"]
  by (simp add: get_expenses_def find_sorted_def sort_date_desc_def listed_def
      post_expenses_def property_def new_Expense_def save_def validate_def castNumber_def)

text \<open>
  Claim C2 (the owner is never client-supplied). POST /expenses either answers 400 and
  leaves the collection as it was, or appends one expense whose owner is the identity
  the handler was given; and a body property other than \<^verbatim>\<open>description\<close> and
  \<^verbatim>\<open>amount\<close>, a \<^verbatim>\<open>user\<close> or owner property among them, changes neither the
  collection nor the response.
\<close>

theorem owner_is_resolved_identity:
  "((\<exists>e. post_expenses env db uid body = (db @ [e], \<lparr>status = 201, content = Saved e\<rparr>)
         \<and> user e = uid)
    \<or> (\<exists>r. post_expenses env db uid body = (db, r) \<and> status r = 400))
   \<and> (k \<noteq> ''description'' \<and> k \<noteq> ''amount'' \<longrightarrow>
        post_expenses env db uid (body(k := v)) = post_expenses env db uid body)"
  using post_expenses_cases[of env db uid body] post_expenses_frame[of k env db uid body v]
  by blast

theorem owner_is_resolved_identity_witness:
  "''user'' \<noteq> ''description'' \<and> ''user'' \<noteq> ''amount'' \<and>
   post_expenses \<lparr>Date_now = 1700000000000, Number_toString = (\<lambda>n. []), store_failure = None\<rparr>
       [] ''alice''
       [''description'' \<mapsto> JString ''coffee'', ''amount'' \<mapsto> JString ''3.50'',
        ''user'' \<mapsto> JString ''bob'']
   = ([\<lparr>user = ''alice'', description = ''coffee'', amount = Finite (7 / 2),
        date = 1700000000000\<rparr>],
      \<lparr>status = 201,
       content = Saved \<lparr>user = ''alice'', description = ''coffee'', amount = Finite (7 / 2),
                        date = 1700000000000\<rparr>\<rparr>)"
  using owner_is_resolved_identity[of "\<lparr>Date_now = 1700000000000, Number_toString = (\<lambda>n. []), store_failure = None\<rparr>"
      "[]" "''alice''"
      "[''description'' \<mapsto> JString ''coffee'', ''amount'' \<mapsto> JString ''3.50'']"
      "''user''" "Some (JString ''bob'')"]
  by (simp add: post_expenses_def property_def new_Expense_def save_def validate_def
      castNumber_def number_defs)

text \<open>
  Claim C3 (create-expense validation), at the input where the handler departs from it.
  The number \<open>0\<close> is a present amount that \<^verbatim>\<open>Number\<close> leaves as it is and the
  Number path of the schema accepts, yet the guard \<^verbatim>\<open>!amount\<close> holds of it: the
  request is answered 400 with the message that the amount is required, and nothing is
  saved. The string \<^verbatim>\<open>"0"\<close> passes the same guard and is saved as \<open>0\<close>.
\<close>

theorem zero_amount_rejected:
  "post_expenses env db uid
     [''description'' \<mapsto> JString ''coffee'', ''amount'' \<mapsto> JNumber (Finite 0)]
   = (db, \<lparr>status = 400, content = Message ''Description and amount are required.''\<rparr>)
   \<and> castNumber (Number (JNumber (Finite 0))) = Some (Finite 0)
   \<and> (store_failure env = None \<longrightarrow>
        post_expenses env db uid
          [''description'' \<mapsto> JString ''coffee'', ''amount'' \<mapsto> JString ''0'']
        = (db @ [\<lparr>user = uid, description = ''coffee'', amount = Finite 0,
                   date = Date_now env\<rparr>],
           \<lparr>status = 201,
            content = Saved \<lparr>user = uid, description = ''coffee'', amount = Finite 0,
                             date = Date_now env\<rparr>\<rparr>))"
proof -
  have "StringToNumber ''0'' = Finite 0"
    by (simp add: number_defs)
  then show ?thesis
    by (simp add: post_expenses_def property_def new_Expense_def save_def validate_def
        castNumber_def)
qed

theorem zero_amount_rejected_witness:
  "store_failure \<lparr>Date_now = 7, Number_toString = (\<lambda>n. []), store_failure = None\<rparr> = None \<and>
   post_expenses \<lparr>Date_now = 7, Number_toString = (\<lambda>n. []), store_failure = None\<rparr>
     [] ''alice'' [''description'' \<mapsto> JString ''coffee'', ''amount'' \<mapsto> JNumber (Finite 0)]
   = ([], \<lparr>status = 400, content = Message ''Description and amount are required.''\<rparr>) \<and>
   fst (post_expenses \<lparr>Date_now = 7, Number_toString = (\<lambda>n. []), store_failure = None\<rparr>
     [] ''alice'' [''description'' \<mapsto> JString ''coffee'', ''amount'' \<mapsto> JString ''0''])
   = [\<lparr>user = ''alice'', description = ''coffee'', amount = Finite 0, date = 7\<rparr>]"
  using zero_amount_rejected
    [of "\<lparr>Date_now = 7, Number_toString = (\<lambda>n. []), store_failure = None\<rparr>" "[]" "''alice''"]
  by simp




text \<open>
  Claim C5 as stated fails at the empty origin: an Origin header with an empty value is
  an origin that is not on the list and has neither suffix, and it is allowed.
\<close>

theorem empty_origin_allowed:
  "origin_callback (Some '''') = Allow \<and> '''' \<notin> set ALLOWED_ORIGINS \<and>
   \<not> endsWith '''' ''.vercel.app'' \<and> \<not> endsWith '''' ''.onrender.com''"
  by (simp add: origin_callback_def ALLOWED_ORIGINS_def endsWith_def)

text \<open>
  Claim C5 (cross-origin policy), amended. The callback allows exactly: no Origin header,
  an empty Origin value, an origin of the allow-list, and an origin ending in
  \<^verbatim>\<open>.vercel.app\<close> or \<^verbatim>\<open>.onrender.com\<close>. Every other origin is rejected with an
  error whose message names it. The outcome is a function of the origin alone.
\<close>

theorem cors_policy:
  "(origin_callback origin = Allow \<longleftrightarrow>
      origin = None \<or> origin = Some [] \<or>
      (\<exists>s. origin = Some s \<and>
         (s \<in> set ALLOWED_ORIGINS \<or> endsWith s ''.vercel.app'' \<or> endsWith s ''.onrender.com'')))
   \<and> (origin_callback origin \<noteq> Allow \<longrightarrow>
        (\<exists>s. origin = Some s \<and>
           origin_callback origin =
             Deny (''Origin '' @ s @ '' is not allowed by the server's CORS policy.'')))"
proof (cases origin)
  case None
  then show ?thesis by (simp add: origin_callback_None)
next
  case (Some s)
  then show ?thesis by (simp add: origin_callback_Some)
qed

theorem cors_policy_witness:
  "origin_callback (Some ''https://evil.example'') \<noteq> Allow \<and>
   origin_callback (Some ''https://evil.example'') =
     Deny ''Origin https://evil.example is not allowed by the server's CORS policy.'' \<and>
   origin_callback (Some ''https://app.vercel.app'') = Allow"
  using cors_policy[of "Some ''https://evil.example''"] cors_policy[of "Some ''https://app.vercel.app''"]
  by (simp add: ALLOWED_ORIGINS_def endsWith_def)

text \<open>
  Claim C6 (listing order). When the store call succeeds, GET /expenses answers 200 with
  exactly the expenses of the user, each as often as the collection holds it, the
  latest date first.
\<close>

theorem listing_newest_first:
  assumes "store_failure env = None"
  shows "status (get_expenses env db uid) = 200 \<and>
         sorted_wrt (\<lambda>a b. date b \<le> date a) (listed (get_expenses env db uid)) \<and>
         mset (listed (get_expenses env db uid)) = mset (filter (\<lambda>e. user e = uid) db)"
proof -
  have "listed (get_expenses env db uid) = sort_date_desc (filter (\<lambda>e. user e = uid) db)"
    using assms by (simp add: get_expenses_ok listed_def)
  moreover have "mset (sort_date_desc xs) = mset xs" for xs :: "expense list"
    by (simp add: sort_date_desc_def)
  ultimately show ?thesis
    using assms by (simp add: get_expenses_ok sorted_sort_date_desc)
qed

theorem listing_newest_first_witness:
  "store_failure \<lparr>Date_now = 0, Number_toString = (\<lambda>n. []), store_failure = None\<rparr> = None \<and>
   status (get_expenses \<lparr>Date_now = 0, Number_toString = (\<lambda>n. []), store_failure = None\<rparr>
     [\<lparr>user = ''alice'', description = ''tea'', amount = Finite 2, date = 10\<rparr>,
      \<lparr>user = ''bob'', description = ''rent'', amount = Finite 900, date = 40\<rparr>,
      \<lparr>user = ''alice'', description = ''coffee'', amount = Finite (7 / 2), date = 30\<rparr>,
      \<lparr>user = ''alice'', description = ''bus'', amount = Finite 3, date = 20\<rparr>] ''alice'') = 200 \<and>
   map date (listed (get_expenses \<lparr>Date_now = 0, Number_toString = (\<lambda>n. []), store_failure = None\<rparr>
     [\<lparr>user = ''alice'', description = ''tea'', amount = Finite 2, date = 10\<rparr>,
      \<lparr>user = ''bob'', description = ''rent'', amount = Finite 900, date = 40\<rparr>,
      \<lparr>user = ''alice'', description = ''coffee'', amount = Finite (7 / 2), date = 30\<rparr>,
      \<lparr>user = ''alice'', description = ''bus'', amount = Finite 3, date = 20\<rparr>] ''alice''))
     = [30, 20, 10]"
  using listing_newest_first[of "\<lparr>Date_now = 0, Number_toString = (\<lambda>n. []), store_failure = None\<rparr>"
     "[\<lparr>user = ''alice'', description = ''tea'', amount = Finite 2, date = 10\<rparr>,
      \<lparr>user = ''bob'', description = ''rent'', amount = Finite 900, date = 40\<rparr>,
      \<lparr>user = ''alice'', description = ''coffee'', amount = Finite (7 / 2), date = 30\<rparr>,
      \<lparr>user = ''alice'', description = ''bus'', amount = Finite 3, date = 20\<rparr>]" "''alice''"]
  by (simp add: get_expenses_def find_sorted_def sort_date_desc_def listed_def)



text \<open>
  Claim C8 (fail-fast start-up). When the connection promise rejects while the
  connection is pending, the process exits with code 1, and no request that arrives
  afterwards is answered: the responses are those sent before the rejection.
\<close>

theorem fail_fast_startup:
  assumes "connection (run route started evs) = Pending"
    and "exit_code (run route started evs) = None"
  shows "exit_code (run route started (evs @ ConnectRejected err # later)) = Some 1 \<and>
         responses (run route started (evs @ ConnectRejected err # later))
           = responses (run route started evs)"
proof -
  let ?p = "run route started evs"
  have "run route started (evs @ ConnectRejected err # later)
          = run route (on_event route ?p (ConnectRejected err)) later"
    by (simp add: run_append run_Cons)
  also have "\<dots> = run route (?p\<lparr>exit_code := Some 1\<rparr>) later"
    using assms by (simp add: on_event_rejected)
  also have "\<dots> = ?p\<lparr>exit_code := Some 1\<rparr>"
    by (rule run_exited[where c = 1]) simp
  finally show ?thesis by simp
qed

theorem fail_fast_startup_witness:
  "connection (run (\<lambda>q. get_root) started [Request ()]) = Pending \<and>
   exit_code (run (\<lambda>q. get_root) started [Request ()]) = None \<and>
   exit_code (run (\<lambda>q. get_root) started
      [Request (), ConnectRejected ''ECONNREFUSED'', Request (), ConnectResolved, Request ()])
     = Some 1 \<and>
   responses (run (\<lambda>q. get_root) started
      [Request (), ConnectRejected ''ECONNREFUSED'', Request (), ConnectResolved, Request ()])
     = [get_root]"
  using fail_fast_startup[of "\<lambda>q. get_root" "[Request ()]" "''ECONNREFUSED''"
      "[Request (), ConnectResolved, Request ()]"]
  by (simp add: run_def on_event_def started_def)

text \<open>
  Claim C9 (client-supplied dates are ignored). A \<^verbatim>\<open>date\<close> property of the body
  changes neither the collection nor the response, and the date of a created expense is
  the clock's value at the request.
\<close>

theorem client_date_ignored:
  "post_expenses env db uid (body(''date'' := v)) = post_expenses env db uid body \<and>
   (\<forall>db' e. post_expenses env db uid body = (db', \<lparr>status = 201, content = Saved e\<rparr>) \<longrightarrow>
      date e = Date_now env \<and> db' = db @ [e])"
proof -
  have "post_expenses env db uid (body(''date'' := v)) = post_expenses env db uid body"
    by (rule post_expenses_frame) simp_all
  moreover have "date e = Date_now env \<and> db' = db @ [e]"
    if "post_expenses env db uid body = (db', \<lparr>status = 201, content = Saved e\<rparr>)" for db' e
    using post_expenses_cases[of env db uid body] that by auto
  ultimately show ?thesis by blast
qed

theorem client_date_ignored_witness:
  "post_expenses \<lparr>Date_now = 1700000000000, Number_toString = (\<lambda>n. []), store_failure = None\<rparr>
       [] ''alice''
       [''description'' \<mapsto> JString ''coffee'', ''amount'' \<mapsto> JNumber (Finite 4),
        ''date'' \<mapsto> JString ''1999-01-01'']
   = ([\<lparr>user = ''alice'', description = ''coffee'', amount = Finite 4, date = 1700000000000\<rparr>],
      \<lparr>status = 201,
       content = Saved \<lparr>user = ''alice'', description = ''coffee'', amount = Finite 4,
                        date = 1700000000000\<rparr>\<rparr>) \<and>
   date \<lparr>user = ''alice'', description = ''coffee'', amount = Finite 4, date = 1700000000000\<rparr>
     = Date_now \<lparr>Date_now = 1700000000000, Number_toString = (\<lambda>n. []), store_failure = None\<rparr>"
  using client_date_ignored[of "\<lparr>Date_now = 1700000000000, Number_toString = (\<lambda>n. []), store_failure = None\<rparr>"
      "[]" "''alice''"
      "[''description'' \<mapsto> JString ''coffee'', ''amount'' \<mapsto> JNumber (Finite 4)]"
      "Some (JString ''1999-01-01'')"]
  by (simp add: post_expenses_def property_def new_Expense_def save_def validate_def
      castNumber_def)

text \<open>
  Claim C10 (an empty listing is not an error). When the store call succeeds and the
  user owns no expense, GET /expenses answers 200 with the empty list.
\<close>

theorem empty_listing_ok:
  assumes "store_failure env = None" and "\<forall>e \<in> set db. user e \<noteq> uid"
  shows "get_expenses env db uid = \<lparr>status = 200, content = Expenses []\<rparr>"
proof -
  from assms(2) have "filter (\<lambda>e. user e = uid) db = []"
    by (simp add: filter_empty_conv)
  with assms(1) show ?thesis
    by (simp add: get_expenses_ok sort_date_desc_def)
qed

theorem empty_listing_ok_witness:
  "store_failure \<lparr>Date_now = 0, Number_toString = (\<lambda>n. []), store_failure = None\<rparr> = None \<and>
   get_expenses \<lparr>Date_now = 0, Number_toString = (\<lambda>n. []), store_failure = None\<rparr>
     [\<lparr>user = ''bob'', description = ''rent'', amount = Finite 900, date = 40\<rparr>] ''alice''
   = \<lparr>status = 200, content = Expenses []\<rparr>"
  using empty_listing_ok[of "\<lparr>Date_now = 0, Number_toString = (\<lambda>n. []), store_failure = None\<rparr>"
      "[\<lparr>user = ''bob'', description = ''rent'', amount = Finite 900, date = 40\<rparr>]" "''alice''"]
  by simp

end
